theory Spec2Isabelle
  imports Complex_Main "HOL-Library.Word"
begin

section \<open>Python values, strings and errors\<close>

text \<open>
  A Python \<^verbatim>\<open>str\<close> is a sequence of Unicode code points; iterating it yields its code
  points one by one, each as a string of length one. A code point is a natural number,
  a string a list of them. \<open>str\<close> reads an ASCII literal.
\<close>

type_synonym pychar = nat
type_synonym pystr = "pychar list"

definition str :: "string \<Rightarrow> pystr" where
  "str s = map of_char s"

text \<open>
  The public functions check the dynamic type of their arguments with
  \<^verbatim>\<open>isinstance\<close>, so arguments are dynamically typed values. \<^verbatim>\<open>raise ValueError(msg)\<close>
  is the result \<open>Inl (ValueError msg)\<close> (the message without the interpolated value);
  iterating a value that is not iterable is \<open>Inl TypeError\<close>; a division whose result is
  too large for a float is \<open>Inl OverflowError\<close>, a division by zero
  \<open>Inl ZeroDivisionError\<close>. Integers, strings, lists
  and \<^verbatim>\<open>None\<close> are the values the checks tell apart; booleans, which \<^verbatim>\<open>isinstance\<close> counts
  as integers, and tuples are left out.
\<close>

datatype pyval = PyInt int | PyStr pystr | PyList "pyval list" | PyNone

datatype py_error = ValueError string | TypeError | OverflowError | ZeroDivisionError

section \<open>constants.py\<close>

definition INPUT_KEYBOARD :: int where "INPUT_KEYBOARD = 1"
definition KEYEVENTF_KEYUP :: int where "KEYEVENTF_KEYUP = 0x0002"

definition VK_TAB :: int where "VK_TAB = 0x09"
definition VK_RETURN :: int where "VK_RETURN = 0x0D"
definition VK_SHIFT :: int where "VK_SHIFT = 0x10"
definition VK_CONTROL :: int where "VK_CONTROL = 0x11"
definition VK_SPACE :: int where "VK_SPACE = 0x20"
definition VK_OEM_1 :: int where "VK_OEM_1 = 0xBA"
definition VK_OEM_PLUS :: int where "VK_OEM_PLUS = 0xBB"
definition VK_OEM_COMMA :: int where "VK_OEM_COMMA = 0xBC"
definition VK_OEM_MINUS :: int where "VK_OEM_MINUS = 0xBD"
definition VK_OEM_PERIOD :: int where "VK_OEM_PERIOD = 0xBE"
definition VK_OEM_2 :: int where "VK_OEM_2 = 0xBF"
definition VK_OEM_3 :: int where "VK_OEM_3 = 0xC0"
definition VK_OEM_4 :: int where "VK_OEM_4 = 0xDB"
definition VK_OEM_5 :: int where "VK_OEM_5 = 0xDC"
definition VK_OEM_6 :: int where "VK_OEM_6 = 0xDD"
definition VK_OEM_7 :: int where "VK_OEM_7 = 0xDE"

text \<open>
  \<^verbatim>\<open>CHAR_TO_VK\<close>: the letters map to \<^verbatim>\<open>VK_A\<close> .. \<^verbatim>\<open>VK_Z\<close> (0x41 .. 0x5A) and the digits
  to \<^verbatim>\<open>VK_0\<close> .. \<^verbatim>\<open>VK_9\<close> (0x30 .. 0x39). Tab, newline, carriage return, backslash and
  the apostrophe are written as code points.
\<close>

definition CHAR_TO_VK_items :: "(pystr \<times> int) list" where
  "CHAR_TO_VK_items =
    [(str ''a'', 0x41), (str ''b'', 0x42), (str ''c'', 0x43), (str ''d'', 0x44),
     (str ''e'', 0x45), (str ''f'', 0x46), (str ''g'', 0x47), (str ''h'', 0x48),
     (str ''i'', 0x49), (str ''j'', 0x4A), (str ''k'', 0x4B), (str ''l'', 0x4C),
     (str ''m'', 0x4D), (str ''n'', 0x4E), (str ''o'', 0x4F), (str ''p'', 0x50),
     (str ''q'', 0x51), (str ''r'', 0x52), (str ''s'', 0x53), (str ''t'', 0x54),
     (str ''u'', 0x55), (str ''v'', 0x56), (str ''w'', 0x57), (str ''x'', 0x58),
     (str ''y'', 0x59), (str ''z'', 0x5A),
     (str ''0'', 0x30), (str ''1'', 0x31), (str ''2'', 0x32), (str ''3'', 0x33),
     (str ''4'', 0x34), (str ''5'', 0x35), (str ''6'', 0x36), (str ''7'', 0x37),
     (str ''8'', 0x38), (str ''9'', 0x39),
     (str '' '', VK_SPACE), ([0x09], VK_TAB), ([0x0A], VK_RETURN), ([0x0D], VK_RETURN),
     (str '';'', VK_OEM_1), (str ''='', VK_OEM_PLUS), (str '','', VK_OEM_COMMA),
     (str ''-'', VK_OEM_MINUS), (str ''.'', VK_OEM_PERIOD), (str ''/'', VK_OEM_2),
     (str ''`'', VK_OEM_3), (str ''['', VK_OEM_4), ([0x5C], VK_OEM_5),
     (str '']'', VK_OEM_6), ([0x27], VK_OEM_7)]"

definition CHAR_TO_VK :: "pystr \<rightharpoonup> int" where
  "CHAR_TO_VK = map_of CHAR_TO_VK_items"

definition SHIFT_CHARS :: "pystr set" where
  "SHIFT_CHARS = set (map (\<lambda>c. [of_char c])
     (''ABCDEFGHIJKLMNOPQRSTUVWXYZ'' @ ''!@#$%^&*()_+'' @ ''{}|:'' @ [CHR 0x22] @ ''<>?~''))"

definition SHIFT_CHAR_MAP_items :: "(pystr \<times> pystr) list" where
  "SHIFT_CHAR_MAP_items =
    [(str ''!'', str ''1''), (str ''@'', str ''2''), (str ''#'', str ''3''),
     (str ''$'', str ''4''), (str ''%'', str ''5''), (str ''^'', str ''6''),
     (str ''&'', str ''7''), (str ''*'', str ''8''), (str ''('', str ''9''),
     (str '')'', str ''0''), (str ''_'', str ''-''), (str ''+'', str ''=''),
     (str ''{'', str ''[''), (str ''}'', str '']''), (str ''|'', [0x5C]),
     (str '':'', str '';''), ([0x22], [0x27]),
     (str ''<'', str '',''), (str ''>'', str ''.''), (str ''?'', str ''/''),
     (str ''~'', str ''`'')]"

definition SHIFT_CHAR_MAP :: "pystr \<rightharpoonup> pystr" where
  "SHIFT_CHAR_MAP = map_of SHIFT_CHAR_MAP_items"

section \<open>The interpreter's case mapping\<close>

text \<open>
  \<^verbatim>\<open>str.isupper\<close> and \<^verbatim>\<open>str.lower\<close> are built into the interpreter and read its Unicode
  database; they are no code of the repository. The functions that call them take them
  as a parameter, so that every general theorem below holds whatever the database says.
\<close>

record unicode_db =
  isupper :: "pystr \<Rightarrow> bool"
  lower :: "pystr \<Rightarrow> pystr"

text \<open>
  A concrete database for evaluation. It is exact on the ASCII code points, on U+0130
  (LATIN CAPITAL LETTER I WITH DOT ABOVE) and on U+212A (KELVIN SIGN, an uppercase letter
  whose lowercase is the ASCII letter k); every other code point is taken to be caseless.
  It is only ever evaluated on ASCII code points, on U+212A and on U+4E16, a CJK
  ideograph, which has no case.
\<close>

definition cp_isupper :: "pychar \<Rightarrow> bool" where
  "cp_isupper c = ((0x41 \<le> c \<and> c \<le> 0x5A) \<or> c = 0x130 \<or> c = 0x212A)"

definition cp_islower :: "pychar \<Rightarrow> bool" where
  "cp_islower c = (0x61 \<le> c \<and> c \<le> 0x7A)"

definition cp_lower :: "pychar \<Rightarrow> pystr" where
  "cp_lower c =
    (if 0x41 \<le> c \<and> c \<le> 0x5A then [c + 0x20]
     else if c = 0x130 then [0x69, 0x307]
     else if c = 0x212A then [0x6B]
     else [c])"

definition py_unicode :: unicode_db where
  "py_unicode =
    \<lparr> isupper = (\<lambda>s. list_ex cp_isupper s \<and> \<not> list_ex cp_islower s),
      lower = (\<lambda>s. concat (map cp_lower s)) \<rparr>"

section \<open>utils.py: character support and text segmentation\<close>

definition is_char_supported :: "unicode_db \<Rightarrow> pystr \<Rightarrow> bool" where
  "is_char_supported U char =
    (if length char \<noteq> 1 then False
     else if char \<in> dom CHAR_TO_VK then True
     else if isupper U char \<and> lower U char \<in> dom CHAR_TO_VK then True
     else if char \<in> SHIFT_CHARS \<and>
        (case SHIFT_CHAR_MAP char of
           None \<Rightarrow> False
         | Some base_char \<Rightarrow> base_char \<noteq> [] \<and> base_char \<in> dom CHAR_TO_VK) then True
     else False)"

text \<open>
  The loop of \<^verbatim>\<open>split_text_by_support\<close> over the remaining characters, with its three
  variables \<^verbatim>\<open>chunks\<close>, \<^verbatim>\<open>current_chunk\<close> and \<^verbatim>\<open>current_supported\<close>.
\<close>

fun split_loop ::
  "unicode_db \<Rightarrow> pystr \<Rightarrow> (pystr \<times> bool) list \<Rightarrow> pystr \<Rightarrow> bool
    \<Rightarrow> (pystr \<times> bool) list \<times> pystr \<times> bool" where
  "split_loop U [] chunks current_chunk current_supported =
     (chunks, current_chunk, current_supported)"
| "split_loop U (c # cs) chunks current_chunk current_supported =
     (let char_supported = is_char_supported U [c] in
      if char_supported = current_supported
      then split_loop U cs chunks (current_chunk @ [c]) current_supported
      else split_loop U cs
             (if current_chunk \<noteq> [] then chunks @ [(current_chunk, current_supported)]
              else chunks)
             [c] char_supported)"

definition split_text_by_support :: "unicode_db \<Rightarrow> pyval \<Rightarrow> py_error + (pystr \<times> bool) list" where
  "split_text_by_support U text =
    (case text of
       PyStr t \<Rightarrow>
         (case t of
            [] \<Rightarrow> Inr []
          | c0 # _ \<Rightarrow>
              (case split_loop U t [] [] (is_char_supported U [c0]) of
                 (chunks, current_chunk, current_supported) \<Rightarrow>
                   Inr (if current_chunk \<noteq> [] then chunks @ [(current_chunk, current_supported)]
                        else chunks)))
     | _ \<Rightarrow> Inl (ValueError ''Text must be a string''))"

text \<open>No two neighbours of a list of spans carry the same flag.\<close>

fun alternating :: "(pystr \<times> bool) list \<Rightarrow> bool" where
  "alternating [] = True"
| "alternating [x] = True"
| "alternating (x # y # zs) = (snd x \<noteq> snd y \<and> alternating (y # zs))"

section \<open>utils.py: delays, typing time and typing profiles\<close>





definition calculate_typing_time :: "unicode_db \<Rightarrow> pyval \<Rightarrow> real \<Rightarrow> py_error + real" where
  "calculate_typing_time U text delay =
    (case text of
       PyStr t \<Rightarrow>
         if delay < 0 then Inl (ValueError ''Delay must be non-negative'')
         else
           (let typeable_chars =
                  sum_list (map (\<lambda>char. 1::int) (filter (\<lambda>char. is_char_supported U [char]) t))
            in if typeable_chars \<le> 1 then Inr 0
               else Inr (real_of_int (typeable_chars - 1) * delay))
     | _ \<Rightarrow> Inl (ValueError ''Text must be a string''))"

text \<open>A profile is a dictionary from key names to numbers.\<close>

type_synonym profile = "string \<rightharpoonup> real"

text \<open>
  Integers are unbounded, floats are not. The true division \<^verbatim>\<open>a / b\<close> of two integers
  rounds the exact quotient to the nearest double and raises \<^verbatim>\<open>OverflowError\<close> when that
  is beyond the largest double, \<open>2 ^ 1024 - 2 ^ 971\<close>: that is, when the magnitude of
  the quotient reaches \<open>2 ^ 1024 - 2 ^ 970\<close>, halfway to \<open>2 ^ 1024\<close>. The division of two
  floats raises only for a zero divisor.
\<close>

definition DBL_OVERFLOW :: real where
  "DBL_OVERFLOW = 2 ^ 1024 - 2 ^ 970"

definition int_truediv :: "int \<Rightarrow> int \<Rightarrow> py_error + real" where
  "int_truediv a b =
    (if b = 0 then Inl ZeroDivisionError
     else if DBL_OVERFLOW \<le> \<bar>real_of_int a / real_of_int b\<bar> then Inl OverflowError
     else Inr (real_of_int a / real_of_int b))"

definition float_truediv :: "real \<Rightarrow> real \<Rightarrow> py_error + real" where
  "float_truediv x y = (if y = 0 then Inl ZeroDivisionError else Inr (x / y))"

definition create_typing_profile :: "int \<Rightarrow> py_error + profile" where
  "create_typing_profile wpm =
    (if wpm \<le> 0 then Inl (ValueError ''WPM must be positive'')
     else
       (let chars_per_minute = wpm * 5 in
        case int_truediv chars_per_minute 60 of
          Inl e \<Rightarrow> Inl e
        | Inr chars_per_second \<Rightarrow>
            (case float_truediv 1 chars_per_second of
               Inl e \<Rightarrow> Inl e
             | Inr base_delay \<Rightarrow>
                 (let variance_ratio =
                        (if wpm \<ge> 80 then 2 / 10 else if wpm \<ge> 40 then 3 / 10 else 4 / 10);
                      variance = base_delay * variance_ratio
                  in Inr [''wpm'' \<mapsto> real_of_int wpm,
                          ''base_delay'' \<mapsto> base_delay,
                          ''variance'' \<mapsto> variance,
                          ''pause_chance'' \<mapsto> 5 / 100,
                          ''pause_duration'' \<mapsto> base_delay * 3]))))"



section \<open>wininput.py: key events and the injector\<close>

text \<open>The two ctypes structures, with the widths of their fields.\<close>

record KEYBDINPUT =
  wVk :: "16 word"
  wScan :: "16 word"
  dwFlags :: "32 word"
  time :: "32 word"
  dwExtraInfo :: "64 word"

record INPUT =
  type :: "32 word"
  ki :: KEYBDINPUT

definition create_keyboard_input :: "int \<Rightarrow> int \<Rightarrow> INPUT" where
  "create_keyboard_input vk_code flags =
    \<lparr> type = word_of_int INPUT_KEYBOARD,
      ki = \<lparr> wVk = word_of_int vk_code, wScan = 0, dwFlags = word_of_int flags,
             time = 0, dwExtraInfo = 0 \<rparr> \<rparr>"

text \<open>
  What a call does to the outside world is recorded in a trace: the batches handed to
  \<^verbatim>\<open>SendInput\<close>, the calls of \<^verbatim>\<open>time.sleep\<close> and the warnings printed for a character.
  \<^verbatim>\<open>SendInput\<close> itself is the external injector: given everything that happened so far
  and the batch, it answers how many events it inserted.
\<close>

datatype effect = SendInput "INPUT list" | Sleep real | Print pystr

type_synonym injector = "effect list \<Rightarrow> INPUT list \<Rightarrow> nat"

definition send_input :: "injector \<Rightarrow> INPUT list \<Rightarrow> effect list \<Rightarrow> bool \<times> effect list" where
  "send_input inject inputs tr =
    (if inputs = [] then (True, tr)
     else (inject tr inputs = length inputs, tr @ [SendInput inputs]))"

definition press_key :: "injector \<Rightarrow> pyval \<Rightarrow> effect list \<Rightarrow> (py_error + bool) \<times> effect list" where
  "press_key inject vk_code tr =
    (case vk_code of
       PyInt v \<Rightarrow>
         if v < 0 \<or> v > 255 then (Inl (ValueError ''Invalid virtual key code''), tr)
         else (case send_input inject [create_keyboard_input v 0] tr of (r, tr') \<Rightarrow> (Inr r, tr'))
     | _ \<Rightarrow> (Inl (ValueError ''Invalid virtual key code''), tr))"

definition release_key :: "injector \<Rightarrow> pyval \<Rightarrow> effect list \<Rightarrow> (py_error + bool) \<times> effect list" where
  "release_key inject vk_code tr =
    (case vk_code of
       PyInt v \<Rightarrow>
         if v < 0 \<or> v > 255 then (Inl (ValueError ''Invalid virtual key code''), tr)
         else (case send_input inject [create_keyboard_input v KEYEVENTF_KEYUP] tr of
                 (r, tr') \<Rightarrow> (Inr r, tr'))
     | _ \<Rightarrow> (Inl (ValueError ''Invalid virtual key code''), tr))"

text \<open>Truth value and iteration of a dynamically typed value.\<close>

fun truthy :: "pyval \<Rightarrow> bool" where
  "truthy (PyInt i) = (i \<noteq> 0)"
| "truthy (PyStr s) = (s \<noteq> [])"
| "truthy (PyList xs) = (xs \<noteq> [])"
| "truthy PyNone = False"

fun py_iter :: "pyval \<Rightarrow> pyval list option" where
  "py_iter (PyList xs) = Some xs"
| "py_iter (PyStr s) = Some (map (\<lambda>c. PyStr [c]) s)"
| "py_iter (PyInt i) = None"
| "py_iter PyNone = None"

text \<open>
  The two loops of \<^verbatim>\<open>tap_key\<close> over the modifiers, each appending to the local list
  \<^verbatim>\<open>inputs\<close>. The second loop runs over the reversed modifiers and does not validate;
  a modifier that is no integer cannot be stored in the structure.
\<close>

fun tap_press_modifiers :: "pyval list \<Rightarrow> INPUT list \<Rightarrow> py_error + INPUT list" where
  "tap_press_modifiers [] inputs = Inr inputs"
| "tap_press_modifiers (m # ms) inputs =
     (case m of
        PyInt v \<Rightarrow>
          if v < 0 \<or> v > 255 then Inl (ValueError ''Invalid modifier key code'')
          else tap_press_modifiers ms (inputs @ [create_keyboard_input v 0])
      | _ \<Rightarrow> Inl (ValueError ''Invalid modifier key code''))"

fun tap_release_modifiers :: "pyval list \<Rightarrow> INPUT list \<Rightarrow> py_error + INPUT list" where
  "tap_release_modifiers [] inputs = Inr inputs"
| "tap_release_modifiers (m # ms) inputs =
     (case m of
        PyInt v \<Rightarrow> tap_release_modifiers ms (inputs @ [create_keyboard_input v KEYEVENTF_KEYUP])
      | _ \<Rightarrow> Inl TypeError)"

definition tap_key ::
  "injector \<Rightarrow> pyval \<Rightarrow> pyval \<Rightarrow> effect list \<Rightarrow> (py_error + bool) \<times> effect list" where
  "tap_key inject vk_code modifiers tr =
    (case vk_code of
       PyInt v \<Rightarrow>
         if v < 0 \<or> v > 255 then (Inl (ValueError ''Invalid virtual key code''), tr)
         else if truthy modifiers then
           (case py_iter modifiers of
              None \<Rightarrow> (Inl TypeError, tr)
            | Some mods \<Rightarrow>
                (case tap_press_modifiers mods [] of
                   Inl e \<Rightarrow> (Inl e, tr)
                 | Inr inputs \<Rightarrow>
                     (case tap_release_modifiers (rev mods)
                             (inputs @ [create_keyboard_input v 0,
                                        create_keyboard_input v KEYEVENTF_KEYUP]) of
                        Inl e \<Rightarrow> (Inl e, tr)
                      | Inr inputs' \<Rightarrow>
                          (case send_input inject inputs' tr of (r, tr') \<Rightarrow> (Inr r, tr')))))
         else
           (case send_input inject [create_keyboard_input v 0,
                                 create_keyboard_input v KEYEVENTF_KEYUP] tr of
              (r, tr') \<Rightarrow> (Inr r, tr'))
     | _ \<Rightarrow> (Inl (ValueError ''Invalid virtual key code''), tr))"

text \<open>
  \<^verbatim>\<open>_type_character\<close>. The part from "Handle regular characters" on is reached from every
  path of the shift block that does not return; \<^verbatim>\<open>if vk_code:\<close> is false for \<^verbatim>\<open>None\<close>
  and for \<open>0\<close>, \<^verbatim>\<open>if base_char:\<close> for \<^verbatim>\<open>None\<close> and for the empty string.
\<close>

definition type_regular_character ::
  "injector \<Rightarrow> pystr \<Rightarrow> effect list \<Rightarrow> (py_error + bool) \<times> effect list" where
  "type_regular_character inject char tr =
    (case CHAR_TO_VK char of
       Some vk_code \<Rightarrow>
         if vk_code \<noteq> 0 then tap_key inject (PyInt vk_code) PyNone tr
         else (Inr False, tr @ [Print char])
     | None \<Rightarrow> (Inr False, tr @ [Print char]))"

definition type_character ::
  "unicode_db \<Rightarrow> injector \<Rightarrow> pystr \<Rightarrow> effect list \<Rightarrow> (py_error + bool) \<times> effect list" where
  "type_character U inject char tr =
    (if length char \<noteq> 1 then (Inl (ValueError ''Must provide exactly one character''), tr)
     else if char \<in> SHIFT_CHARS then
       (if isupper U char then
          (case CHAR_TO_VK (lower U char) of
             Some vk_code \<Rightarrow>
               if vk_code \<noteq> 0 then tap_key inject (PyInt vk_code) (PyList [PyInt VK_SHIFT]) tr
               else type_regular_character inject char tr
           | None \<Rightarrow> type_regular_character inject char tr)
        else
          (case SHIFT_CHAR_MAP char of
             Some base_char \<Rightarrow>
               if base_char \<noteq> [] then
                 (case CHAR_TO_VK base_char of
                    Some vk_code \<Rightarrow>
                      if vk_code \<noteq> 0
                      then tap_key inject (PyInt vk_code) (PyList [PyInt VK_SHIFT]) tr
                      else type_regular_character inject char tr
                  | None \<Rightarrow> type_regular_character inject char tr)
               else type_regular_character inject char tr
           | None \<Rightarrow> type_regular_character inject char tr))
     else type_regular_character inject char tr)"

text \<open>The loop of \<^verbatim>\<open>type_string\<close> with its flag \<^verbatim>\<open>success\<close>.\<close>

fun type_string_loop ::
  "unicode_db \<Rightarrow> injector \<Rightarrow> real \<Rightarrow> pystr \<Rightarrow> bool \<Rightarrow> effect list
    \<Rightarrow> (py_error + bool) \<times> effect list" where
  "type_string_loop U inject delay [] success tr = (Inr success, tr)"
| "type_string_loop U inject delay (c # cs) success tr =
     (case type_character U inject [c] tr of
        (Inl e, tr') \<Rightarrow> (Inl e, tr')
      | (Inr char_success, tr') \<Rightarrow>
          type_string_loop U inject delay cs
            (if \<not> char_success then False else success)
            (if delay > 0 then tr' @ [Sleep delay] else tr'))"

definition type_string ::
  "unicode_db \<Rightarrow> injector \<Rightarrow> pyval \<Rightarrow> real \<Rightarrow> effect list
    \<Rightarrow> (py_error + bool) \<times> effect list" where
  "type_string U inject text delay tr =
    (case text of
       PyStr t \<Rightarrow>
         if delay < 0 then (Inl (ValueError ''Delay must be non-negative''), tr)
         else type_string_loop U inject delay t True tr
     | _ \<Rightarrow> (Inl (ValueError ''Text must be a string''), tr))"

text \<open>
  \<^verbatim>\<open>with_modifiers\<close> is a context manager: the code before \<^verbatim>\<open>yield\<close> runs on entry, the
  guarded block of the caller is the argument \<open>body\<close>, and the \<^verbatim>\<open>finally\<close> part runs after
  it, whether the block returned or raised. An error on entry is raised before the
  \<^verbatim>\<open>try\<close>, so neither the block nor the \<^verbatim>\<open>finally\<close> part runs.
\<close>

fun with_modifiers_press ::
  "injector \<Rightarrow> pyval list \<Rightarrow> effect list \<Rightarrow> (py_error + unit) \<times> effect list" where
  "with_modifiers_press inject [] tr = (Inr (), tr)"
| "with_modifiers_press inject (m # ms) tr =
     (case m of
        PyInt v \<Rightarrow>
          if v < 0 \<or> v > 255 then (Inl (ValueError ''Invalid modifier key code''), tr)
          else
            (case press_key inject m tr of
               (Inl e, tr') \<Rightarrow> (Inl e, tr')
             | (Inr r, tr') \<Rightarrow> with_modifiers_press inject ms tr')
      | _ \<Rightarrow> (Inl (ValueError ''Invalid modifier key code''), tr))"

fun with_modifiers_release ::
  "injector \<Rightarrow> pyval list \<Rightarrow> effect list \<Rightarrow> (py_error + unit) \<times> effect list" where
  "with_modifiers_release inject [] tr = (Inr (), tr)"
| "with_modifiers_release inject (m # ms) tr =
     (case release_key inject m tr of
        (Inl e, tr') \<Rightarrow> (Inl e, tr')
      | (Inr r, tr') \<Rightarrow> with_modifiers_release inject ms tr')"

definition with_modifiers ::
  "injector \<Rightarrow> pyval \<Rightarrow> (effect list \<Rightarrow> (py_error + 'a) \<times> effect list) \<Rightarrow> effect list
    \<Rightarrow> (py_error + 'a) \<times> effect list" where
  "with_modifiers inject modifiers body tr =
    (case modifiers of
       PyList mods \<Rightarrow>
         (case with_modifiers_press inject mods tr of
            (Inl e, tr1) \<Rightarrow> (Inl e, tr1)
          | (Inr u, tr1) \<Rightarrow>
              (case body tr1 of
                 (r, tr2) \<Rightarrow>
                   (case with_modifiers_release inject (rev mods) tr2 of
                      (Inl e, tr3) \<Rightarrow> (Inl e, tr3)
                    | (Inr u', tr3) \<Rightarrow> (r, tr3))))
     | _ \<Rightarrow> (Inl (ValueError ''Modifiers must be a list''), tr))"

text \<open>The key events of a trace, in the order in which they were handed to the injector.\<close>

fun sent :: "effect list \<Rightarrow> INPUT list" where
  "sent [] = []"
| "sent (SendInput inputs # tr) = inputs @ sent tr"
| "sent (e # tr) = sent tr"

section \<open>Derived notions used in the statements\<close>

text \<open>
  The batch of a tap: the modifiers pressed in the order given, the key pressed and
  released, the modifiers released in reverse order.
\<close>

definition tap_batch :: "int \<Rightarrow> int list \<Rightarrow> INPUT list" where
  "tap_batch vk ms =
     map (\<lambda>m. create_keyboard_input m 0) ms @
     [create_keyboard_input vk 0, create_keyboard_input vk KEYEVENTF_KEYUP] @
     map (\<lambda>m. create_keyboard_input m KEYEVENTF_KEYUP) (rev ms)"

text \<open>
  The decisions of \<^verbatim>\<open>_type_character\<close> without its effects: \<open>shift_vk\<close> is the key code
  with which the shift block returns, if it does; \<open>resolve\<close> is the key code and the
  modifiers that \<^verbatim>\<open>_type_character\<close> taps, or \<open>None\<close> when it reaches the warning.
\<close>

definition shift_vk :: "unicode_db \<Rightarrow> pystr \<Rightarrow> int option" where
  "shift_vk U char =
    (if char \<in> SHIFT_CHARS then
       (if isupper U char then
          (case CHAR_TO_VK (lower U char) of
             Some vk_code \<Rightarrow> if vk_code \<noteq> 0 then Some vk_code else None
           | None \<Rightarrow> None)
        else
          (case SHIFT_CHAR_MAP char of
             Some base_char \<Rightarrow>
               if base_char \<noteq> [] then
                 (case CHAR_TO_VK base_char of
                    Some vk_code \<Rightarrow> if vk_code \<noteq> 0 then Some vk_code else None
                  | None \<Rightarrow> None)
               else None
           | None \<Rightarrow> None))
     else None)"

definition resolve :: "unicode_db \<Rightarrow> pystr \<Rightarrow> (int \<times> int list) option" where
  "resolve U char =
    (case shift_vk U char of
       Some vk_code \<Rightarrow> Some (vk_code, [VK_SHIFT])
     | None \<Rightarrow>
         (case CHAR_TO_VK char of
            Some vk_code \<Rightarrow> if vk_code \<noteq> 0 then Some (vk_code, []) else None
          | None \<Rightarrow> None))"

text \<open>
  What typing one character of a string adds to the trace: the effects of
  \<^verbatim>\<open>_type_character\<close> on it, then the sleep when the delay is positive.
\<close>

definition char_effects :: "unicode_db \<Rightarrow> injector \<Rightarrow> real \<Rightarrow> pychar \<Rightarrow> effect list" where
  "char_effects U inject delay c =
     snd (type_character U inject [c] []) @ (if delay > 0 then [Sleep delay] else [])"

text \<open>An injector that always reports every event of the batch as inserted.\<close>

definition always_ok :: injector where
  "always_ok tr inputs = length inputs"


definition profile_60 :: profile where
  "profile_60 =
    [''wpm'' \<mapsto> 60, ''base_delay'' \<mapsto> 1 / 5, ''variance'' \<mapsto> 3 / 50,
     ''pause_chance'' \<mapsto> 1 / 20, ''pause_duration'' \<mapsto> 3 / 5]"


section \<open>Facts about the tables\<close>

lemma str_simps: "str [] = []" "str (c # cs) = of_char c # str cs"
  by (simp_all add: str_def)

lemmas vk_defs = VK_TAB_def VK_RETURN_def VK_SHIFT_def VK_CONTROL_def VK_SPACE_def
  VK_OEM_1_def VK_OEM_PLUS_def VK_OEM_COMMA_def VK_OEM_MINUS_def VK_OEM_PERIOD_def
  VK_OEM_2_def VK_OEM_3_def VK_OEM_4_def VK_OEM_5_def VK_OEM_6_def VK_OEM_7_def

lemmas table_defs = CHAR_TO_VK_def CHAR_TO_VK_items_def SHIFT_CHARS_def
  SHIFT_CHAR_MAP_def SHIFT_CHAR_MAP_items_def str_simps vk_defs

lemmas unicode_defs = py_unicode_def cp_isupper_def cp_islower_def cp_lower_def

lemma CHAR_TO_VK_items_range: "list_all (\<lambda>(k, v). 0 < v \<and> v \<le> 255) CHAR_TO_VK_items"
  by (simp add: CHAR_TO_VK_items_def vk_defs)

lemma CHAR_TO_VK_range: "CHAR_TO_VK k = Some v \<Longrightarrow> 0 < v \<and> v \<le> 255"
proof -
  assume "CHAR_TO_VK k = Some v"
  then have "(k, v) \<in> set CHAR_TO_VK_items"
    unfolding CHAR_TO_VK_def by (rule map_of_SomeD)
  with CHAR_TO_VK_items_range show ?thesis
    by (auto simp: list_all_iff)
qed

lemma supported_H: "is_char_supported py_unicode [0x48]"
  and supported_e: "is_char_supported py_unicode [0x65]"
  and supported_i: "is_char_supported py_unicode [0x69]"
  and supported_l: "is_char_supported py_unicode [0x6C]"
  and supported_o: "is_char_supported py_unicode [0x6F]"
  and supported_A: "is_char_supported py_unicode [0x41]"
  and supported_a: "is_char_supported py_unicode [0x61]"
  and unsupported_cjk: "\<not> is_char_supported py_unicode [0x4E16]"
  by (simp_all add: is_char_supported_def table_defs unicode_defs domIff)

section \<open>Text segmentation\<close>

lemma alternating_snoc:
  "alternating (xs @ [x]) = (alternating xs \<and> (xs \<noteq> [] \<longrightarrow> snd (last xs) \<noteq> snd x))"
  by (induction xs rule: alternating.induct) auto

lemma split_loop_concat:
  "split_loop U cs chunks cur flag = (chunks', cur', flag') \<Longrightarrow>
   concat (map fst chunks') @ cur' = concat (map fst chunks) @ cur @ cs"
  by (induction cs arbitrary: chunks cur flag) (auto simp: Let_def split: if_splits)

text \<open>
  The invariant of the loop: the closed spans alternate, the last of them differs from
  the flag of the open chunk, and spans are only closed once the open chunk is non-empty.
\<close>

lemma split_loop_alternating:
  "split_loop U cs chunks cur flag = (chunks', cur', flag') \<Longrightarrow>
   alternating chunks \<Longrightarrow> (chunks \<noteq> [] \<longrightarrow> snd (last chunks) \<noteq> flag \<and> cur \<noteq> []) \<Longrightarrow>
   alternating chunks' \<and> (chunks' \<noteq> [] \<longrightarrow> snd (last chunks') \<noteq> flag' \<and> cur' \<noteq> [])"
proof (induction cs arbitrary: chunks cur flag)
  case Nil
  then show ?case by simp
next
  case (Cons c cs)
  show ?case
  proof (cases "is_char_supported U [c] = flag")
    case True
    with Cons.prems have "split_loop U cs chunks (cur @ [c]) flag = (chunks', cur', flag')"
      by simp
    from Cons.IH[OF this] Cons.prems(2,3) show ?thesis by simp
  next
    case False
    let ?chunks = "if cur \<noteq> [] then chunks @ [(cur, flag)] else chunks"
    from False Cons.prems
    have run: "split_loop U cs ?chunks [c] (is_char_supported U [c]) = (chunks', cur', flag')"
      by (simp add: Let_def)
    have a: "alternating ?chunks"
      using Cons.prems(2,3) by (simp add: alternating_snoc)
    have b: "?chunks \<noteq> [] \<longrightarrow> snd (last ?chunks) \<noteq> is_char_supported U [c] \<and> [c] \<noteq> []"
      using Cons.prems(3) False by auto
    from Cons.IH[OF run a b] show ?thesis .
  qed
qed

text \<open>
  C5. For every string \<open>t\<close>, \<^verbatim>\<open>split_text_by_support(t)\<close> returns a list of spans whose
  chunks, concatenated in order, are \<open>t\<close>, and in which no two adjacent spans have the
  same supported flag; for the empty string it returns the empty list.
\<close>

theorem split_text_by_support_spans:
  "(\<exists>spans. split_text_by_support U (PyStr t) = Inr spans \<and>
            concat (map fst spans) = t \<and> alternating spans) \<and>
   split_text_by_support U (PyStr []) = Inr []"
proof (cases t)
  case Nil
  then show ?thesis by (simp add: split_text_by_support_def)
next
  case (Cons c0 cs)
  obtain chunks cur flag
    where run: "split_loop U t [] [] (is_char_supported U [c0]) = (chunks, cur, flag)"
    by (cases "split_loop U t [] [] (is_char_supported U [c0])") auto
  from split_loop_concat[OF run] have c: "concat (map fst chunks) @ cur = t" by simp
  from split_loop_alternating[OF run]
  have a: "alternating chunks" "chunks \<noteq> [] \<longrightarrow> snd (last chunks) \<noteq> flag"
    by simp_all
  show ?thesis using Cons run c a
    by (auto simp: split_text_by_support_def alternating_snoc)
qed

theorem split_text_by_support_spans_witness:
  "split_text_by_support py_unicode (PyStr [0x61, 0x62, 0x4E16, 0x21]) =
     Inr [([0x61, 0x62], True), ([0x4E16], False), ([0x21], True)] \<and>
   concat (map fst [([0x61, 0x62], True), ([0x4E16], False), ([0x21::nat], True)]) =
     [0x61, 0x62, 0x4E16, 0x21] \<and>
   alternating [([0x61, 0x62], True), ([0x4E16], False), ([0x21], True)]"
proof -
  have run: "split_text_by_support py_unicode (PyStr [0x61, 0x62, 0x4E16, 0x21]) =
     Inr [([0x61, 0x62], True), ([0x4E16], False), ([0x21], True)]"
    by (simp add: split_text_by_support_def is_char_supported_def table_defs unicode_defs domIff)
  from split_text_by_support_spans[of py_unicode "[0x61, 0x62, 0x4E16, 0x21]"] run
  show ?thesis by auto
qed

section \<open>Taps\<close>

lemma tap_press_modifiers_valid:
  "list_all (\<lambda>m. 0 \<le> m \<and> m \<le> 255) ms \<Longrightarrow>
   tap_press_modifiers (map PyInt ms) inputs = Inr (inputs @ map (\<lambda>m. create_keyboard_input m 0) ms)"
  by (induction ms arbitrary: inputs) auto

lemma tap_release_modifiers_ints:
  "tap_release_modifiers (map PyInt ms) inputs =
     Inr (inputs @ map (\<lambda>m. create_keyboard_input m KEYEVENTF_KEYUP) ms)"
  by (induction ms arbitrary: inputs) auto

lemma tap_key_valid:
  assumes "0 \<le> vk" "vk \<le> 255" "list_all (\<lambda>m. 0 \<le> m \<and> m \<le> 255) ms"
  shows "tap_key inject (PyInt vk) (PyList (map PyInt ms)) tr =
           (Inr (inject tr (tap_batch vk ms) = length (tap_batch vk ms)),
            tr @ [SendInput (tap_batch vk ms)])"
proof (cases ms)
  case Nil
  with assms show ?thesis
    by (simp add: tap_key_def send_input_def tap_batch_def)
next
  case (Cons m ms')
  have "tap_press_modifiers (map PyInt ms) [] = Inr (map (\<lambda>m. create_keyboard_input m 0) ms)"
    using tap_press_modifiers_valid[OF assms(3), of "[]"] by simp
  moreover have "tap_release_modifiers (rev (map PyInt ms))
        (map (\<lambda>m. create_keyboard_input m 0) ms @
           [create_keyboard_input vk 0, create_keyboard_input vk KEYEVENTF_KEYUP]) =
      Inr (tap_batch vk ms)"
    using tap_release_modifiers_ints[of "rev ms"] by (simp add: rev_map tap_batch_def)
  ultimately show ?thesis using assms(1,2) Cons
    by (simp add: tap_key_def send_input_def tap_batch_def)
qed

lemma tap_key_none:
  assumes "0 \<le> vk" "vk \<le> 255"
  shows "tap_key inject (PyInt vk) PyNone tr =
           (Inr (inject tr (tap_batch vk []) = length (tap_batch vk [])),
            tr @ [SendInput (tap_batch vk [])])"
  using assms by (simp add: tap_key_def send_input_def tap_batch_def)

lemma tap_key_shift:
  assumes "0 \<le> vk" "vk \<le> 255"
  shows "tap_key inject (PyInt vk) (PyList [PyInt VK_SHIFT]) tr =
           (Inr (inject tr (tap_batch vk [VK_SHIFT]) = length (tap_batch vk [VK_SHIFT])),
            tr @ [SendInput (tap_batch vk [VK_SHIFT])])"
  using tap_key_valid[OF assms, of "[VK_SHIFT]" inject tr] by (simp add: VK_SHIFT_def)

lemma press_release_distinct:
  "create_keyboard_input vk 0 \<noteq> create_keyboard_input vk KEYEVENTF_KEYUP"
  by (simp add: create_keyboard_input_def KEYEVENTF_KEYUP_def)

section \<open>Typing one character\<close>

lemma shift_vk_range: "shift_vk U char = Some vk \<Longrightarrow> 0 < vk \<and> vk \<le> 255"
  by (auto simp: shift_vk_def split: if_splits option.splits dest: CHAR_TO_VK_range)

lemma type_character_shift_vk:
  "type_character U inject [c] tr =
    (case shift_vk U [c] of
       Some vk \<Rightarrow> tap_key inject (PyInt vk) (PyList [PyInt VK_SHIFT]) tr
     | None \<Rightarrow> type_regular_character inject [c] tr)"
  by (simp add: type_character_def shift_vk_def split: option.splits)

lemma type_character_resolve:
  "type_character U inject [c] tr =
    (case resolve U [c] of
       Some (vk, ms) \<Rightarrow>
         (Inr (inject tr (tap_batch vk ms) = length (tap_batch vk ms)),
          tr @ [SendInput (tap_batch vk ms)])
     | None \<Rightarrow> (Inr False, tr @ [Print [c]]))"
proof (cases "shift_vk U [c]")
  case (Some vk)
  from shift_vk_range[OF Some] have "0 \<le> vk" "vk \<le> 255" by auto
  then show ?thesis using Some
    by (simp add: type_character_shift_vk resolve_def tap_key_shift)
next
  case None
  show ?thesis
  proof (cases "CHAR_TO_VK [c]")
    case N: None
    with None show ?thesis
      by (simp add: type_character_shift_vk resolve_def type_regular_character_def)
  next
    case (Some vk)
    from CHAR_TO_VK_range[OF Some] have "0 \<le> vk" "vk \<le> 255" "vk \<noteq> 0" by auto
    then show ?thesis using None Some
      by (simp add: type_character_shift_vk resolve_def type_regular_character_def tap_key_none)
  qed
qed

lemma type_character_split:
  "type_character U inject [c] tr =
     (Inr (fst (type_character U inject [c] tr) = Inr True),
      tr @ snd (type_character U inject [c] []))"
  by (cases "resolve U [c]") (auto simp: type_character_resolve)

lemma type_character_effects_any_injector:
  "snd (type_character U inject [c] []) = snd (type_character U inject' [c] [])"
  by (cases "resolve U [c]") (auto simp: type_character_resolve)

section \<open>Typing a string\<close>

lemma All_less_Suc_shift: "(\<forall>i<Suc n. P i) = (P 0 \<and> (\<forall>i<n. P (Suc i)))"
  by (metis less_Suc_eq_0_disj)

lemma type_string_loop_run:
  "type_string_loop U inject d t success tr =
     (Inr (success \<and>
           (\<forall>i<length t.
              fst (type_character U inject [t ! i]
                     (tr @ concat (map (char_effects U inject d) (take i t)))) = Inr True)),
      tr @ concat (map (char_effects U inject d) t))"
proof (induction t arbitrary: success tr)
  case Nil
  show ?case by simp
next
  case (Cons c cs)
  let ?r = "fst (type_character U inject [c] tr) = Inr True"
  let ?tr2 = "tr @ char_effects U inject d c"
  have step: "type_string_loop U inject d (c # cs) success tr =
              type_string_loop U inject d cs (?r \<and> success) ?tr2"
    by (subst type_string_loop.simps, subst type_character_split)
       (auto simp: char_effects_def)
  show ?case
    unfolding step Cons.IH[of "?r \<and> success" ?tr2]
    by (auto simp: All_less_Suc_shift)
qed

text \<open>
  C2. For every string and every delay \<open>\<ge> 0\<close>, \<^verbatim>\<open>type_string\<close> returns without an error;
  the trace it leaves holds the effects of every character of the string in order (the
  tap or the warning of \<^verbatim>\<open>_type_character\<close>, then the sleep), whatever the earlier
  characters returned; and its result is true exactly when \<^verbatim>\<open>_type_character\<close> returned
  true for every character, each run on the trace left by the characters before it.
\<close>

theorem type_string_best_effort:
  assumes "0 \<le> delay"
  shows "type_string U inject (PyStr t) delay tr =
     (Inr (\<forall>i<length t.
              fst (type_character U inject [t ! i]
                     (tr @ concat (map (char_effects U inject delay) (take i t)))) = Inr True),
      tr @ concat (map (char_effects U inject delay) t))"
  using assms by (simp add: type_string_def type_string_loop_run)

text \<open>
  C10. For every delay \<open>\<ge> 0\<close>, \<^verbatim>\<open>type_string\<close> on the empty string returns true and
  leaves the trace as it was: nothing is handed to the injector.
\<close>

theorem type_string_empty:
  assumes "0 \<le> delay"
  shows "type_string U inject (PyStr []) delay tr = (Inr True, tr)"
  using assms by (simp add: type_string_def)

lemma sent_append: "sent (xs @ ys) = sent xs @ sent ys"
  by (induction xs rule: sent.induct) auto

lemma sent_concat: "sent (concat xss) = concat (map sent xss)"
  by (induction xss) (auto simp: sent_append)

lemma sent_char_effects:
  "sent (char_effects U inject d c) = sent (snd (type_character U inject [c] []))"
  by (simp add: char_effects_def sent_append)

text \<open>
  C3. For a valid key code and a list of valid modifier codes, \<^verbatim>\<open>tap_key\<close> hands the
  injector one batch: the modifiers pressed in the order given, the key pressed, the key
  released, the modifiers released in reverse order. The key events of typing a string
  are the events of its characters, one character after the other from left to right.
\<close>

theorem tap_key_order:
  assumes "0 \<le> vk" "vk \<le> 255" "list_all (\<lambda>m. 0 \<le> m \<and> m \<le> 255) ms" "0 \<le> delay"
  shows "(let batch =
                map (\<lambda>m. create_keyboard_input m 0) ms @
                [create_keyboard_input vk 0, create_keyboard_input vk KEYEVENTF_KEYUP] @
                map (\<lambda>m. create_keyboard_input m KEYEVENTF_KEYUP) (rev ms)
          in tap_key inject (PyInt vk) (PyList (map PyInt ms)) tr =
               (Inr (inject tr batch = length batch), tr @ [SendInput batch])) \<and>
         sent (snd (type_string U inject (PyStr t) delay tr)) =
           sent tr @ concat (map (\<lambda>c. sent (snd (type_character U inject [c] []))) t)"
proof -
  have "sent (snd (type_string U inject (PyStr t) delay tr)) =
           sent tr @ concat (map (\<lambda>c. sent (snd (type_character U inject [c] []))) t)"
    using assms(4)
    by (simp add: type_string_def type_string_loop_run sent_append sent_concat
        sent_char_effects comp_def)
  then show ?thesis
    using tap_key_valid[OF assms(1,2,3), of inject tr] by (simp add: tap_batch_def Let_def)
qed


lemma resolve_a: "resolve py_unicode [0x61] = Some (0x41, [])"
  by (simp add: resolve_def shift_vk_def table_defs unicode_defs)

lemma resolve_B: "resolve py_unicode [0x42] = Some (0x42, [VK_SHIFT])"
  by (simp add: resolve_def shift_vk_def table_defs unicode_defs)

lemma resolve_cjk: "resolve py_unicode [0x4E16] = None"
  by (simp add: resolve_def shift_vk_def table_defs unicode_defs)

theorem type_string_best_effort_witness:
  "(0::real) \<le> 0 \<and>
   type_string py_unicode always_ok (PyStr [0x61, 0x4E16, 0x42]) 0 [] =
     (Inr False,
      [SendInput (tap_batch 0x41 []), Print [0x4E16], SendInput (tap_batch 0x42 [VK_SHIFT])])"
  using type_string_best_effort[of 0 py_unicode always_ok "[0x61, 0x4E16, 0x42]" "[]"]
  by (simp add: char_effects_def type_character_resolve resolve_a resolve_B resolve_cjk
      All_less_Suc_shift)

theorem type_string_empty_witness:
  "(0::real) \<le> 1 / 20 \<and> type_string py_unicode always_ok (PyStr []) (1 / 20) [] = (Inr True, [])"
  using type_string_empty[of "1 / 20" py_unicode always_ok "[]"] by simp

theorem tap_key_order_witness:
  "(0::int) \<le> 0x43 \<and> (0x43::int) \<le> 255 \<and>
   list_all (\<lambda>m. 0 \<le> m \<and> m \<le> 255) [VK_CONTROL, VK_SHIFT] \<and> (0::real) \<le> 0 \<and>
   tap_key always_ok (PyInt 0x43) (PyList [PyInt VK_CONTROL, PyInt VK_SHIFT]) [] =
     (Inr True,
      [SendInput
        [create_keyboard_input VK_CONTROL 0, create_keyboard_input VK_SHIFT 0,
         create_keyboard_input 0x43 0, create_keyboard_input 0x43 KEYEVENTF_KEYUP,
         create_keyboard_input VK_SHIFT KEYEVENTF_KEYUP,
         create_keyboard_input VK_CONTROL KEYEVENTF_KEYUP]]) \<and>
   sent (snd (type_string py_unicode always_ok (PyStr [0x61, 0x42]) 0 [])) =
     [create_keyboard_input 0x41 0, create_keyboard_input 0x41 KEYEVENTF_KEYUP,
      create_keyboard_input VK_SHIFT 0, create_keyboard_input 0x42 0,
      create_keyboard_input 0x42 KEYEVENTF_KEYUP, create_keyboard_input VK_SHIFT KEYEVENTF_KEYUP]"
  using tap_key_order[of "0x43" "[VK_CONTROL, VK_SHIFT]" 0 always_ok "[]" py_unicode "[0x61, 0x42]"]
  by (simp add: VK_CONTROL_def VK_SHIFT_def type_character_resolve resolve_a resolve_B
      tap_batch_def always_ok_def Let_def)

section \<open>Validation errors\<close>

lemma press_key_error: "press_key inject vk tr = (Inl e, tr') \<Longrightarrow> tr' = tr"
  by (auto simp: press_key_def send_input_def split: pyval.splits if_splits)

lemma release_key_error: "release_key inject vk tr = (Inl e, tr') \<Longrightarrow> tr' = tr"
  by (auto simp: release_key_def send_input_def split: pyval.splits if_splits)

lemma tap_key_error: "tap_key inject vk ms tr = (Inl e, tr') \<Longrightarrow> tr' = tr"
  by (auto simp: tap_key_def send_input_def split: pyval.splits if_splits option.splits sum.splits)

lemma type_string_error: "type_string U inject s d tr = (Inl e, tr') \<Longrightarrow> tr' = tr"
  by (auto simp: type_string_def type_string_loop_run split: pyval.splits if_splits)

lemma with_modifiers_not_list:
  "with_modifiers inject (PyInt i) body tr = (Inl (ValueError ''Modifiers must be a list''), tr)"
  "with_modifiers inject (PyStr s) body tr = (Inl (ValueError ''Modifiers must be a list''), tr)"
  "with_modifiers inject PyNone body tr = (Inl (ValueError ''Modifiers must be a list''), tr)"
  by (simp_all add: with_modifiers_def)

text \<open>
  C4. A validation error is raised before any key event is emitted. This fails for
  \<^verbatim>\<open>with_modifiers\<close>: its entry loop validates each modifier only when it reaches it,
  after pressing the ones before. On \<^verbatim>\<open>[VK_CONTROL, -1]\<close> the control key has been pressed
  (and is never released) when the error for \<open>-1\<close> is raised. The four other operations
  leave the trace untouched when they raise, as the lemmas above show.
\<close>

theorem with_modifiers_partial_press:
  "with_modifiers inject (PyList [PyInt VK_CONTROL, PyInt (- 1)]) body tr =
     (Inl (ValueError ''Invalid modifier key code''),
      tr @ [SendInput [create_keyboard_input VK_CONTROL 0]])"
  by (simp add: with_modifiers_def press_key_def send_input_def VK_CONTROL_def)

section \<open>Support and resolution\<close>

lemma type_character_ok_iff:
  "(fst (type_character U always_ok [c] tr) = Inr True) = (resolve U [c] \<noteq> None)"
  by (cases "resolve U [c]") (auto simp: type_character_resolve always_ok_def)

lemma resolve_supported: "resolve U [c] \<noteq> None \<Longrightarrow> is_char_supported U [c]"
  by (auto simp: resolve_def shift_vk_def is_char_supported_def domIff
      split: option.splits if_splits)

lemma supported_resolve:
  assumes "\<not> isupper U [c] \<or> ([c] \<in> SHIFT_CHARS \<and> lower U [c] \<in> dom CHAR_TO_VK)"
  shows "is_char_supported U [c] = (resolve U [c] \<noteq> None)"
  using assms
  by (auto simp: resolve_def shift_vk_def is_char_supported_def domIff
      split: option.splits if_splits dest: CHAR_TO_VK_range)

lemma upper_ascii_cases:
  assumes "0x41 \<le> c" "c \<le> (0x5A::nat)"
  shows "c \<in> set [0x41, 0x42, 0x43, 0x44, 0x45, 0x46, 0x47, 0x48, 0x49, 0x4A, 0x4B, 0x4C, 0x4D,
                    0x4E, 0x4F, 0x50, 0x51, 0x52, 0x53, 0x54, 0x55, 0x56, 0x57, 0x58, 0x59, 0x5A]"
  using assms by (simp; arith)

lemma upper_ascii_tables:
  "list_all (\<lambda>c. [c] \<in> SHIFT_CHARS \<and> [c + 0x20] \<in> dom CHAR_TO_VK)
     [0x41, 0x42, 0x43, 0x44, 0x45, 0x46, 0x47, 0x48, 0x49, 0x4A, 0x4B, 0x4C, 0x4D,
      0x4E, 0x4F, 0x50, 0x51, 0x52, 0x53, 0x54, 0x55, 0x56, 0x57, 0x58, 0x59, 0x5A]"
  by (simp add: table_defs domIff)

text \<open>
  With the interpreter's case mapping, U+212A is the only character of the model on which
  the two disagree.
\<close>

lemma py_unicode_agreement:
  assumes "c \<noteq> 0x212A"
  shows "is_char_supported py_unicode [c] = (resolve py_unicode [c] \<noteq> None)"
proof -
  consider (upper) "0x41 \<le> c" "c \<le> 0x5A" | (dotted) "c = 0x130" | (other) "\<not> cp_isupper c"
    using assms by (auto simp: cp_isupper_def)
  then show ?thesis
  proof cases
    case upper
    from upper_ascii_cases[OF upper] upper_ascii_tables
    have "[c] \<in> SHIFT_CHARS \<and> [c + 0x20] \<in> dom CHAR_TO_VK"
      unfolding list_all_iff by blast
    moreover have "lower py_unicode [c] = [c + 0x20]"
      using upper by (simp add: unicode_defs)
    ultimately show ?thesis by (intro supported_resolve) simp
  next
    case dotted
    then show ?thesis
      by (simp add: resolve_def shift_vk_def is_char_supported_def table_defs unicode_defs domIff)
  next
    case other
    then have "\<not> isupper py_unicode [c]" by (simp add: py_unicode_def)
    then show ?thesis by (intro supported_resolve) simp
  qed
qed

text \<open>
  C1. \<^verbatim>\<open>_is_char_supported\<close> and \<^verbatim>\<open>_type_character\<close> agree on every character. This fails
  at U+212A (KELVIN SIGN): it is uppercase and its lowercase \<^verbatim>\<open>k\<close> is in \<^verbatim>\<open>CHAR_TO_VK\<close>,
  so \<^verbatim>\<open>_is_char_supported\<close> returns true; it is not in \<^verbatim>\<open>SHIFT_CHARS\<close> and has no entry
  of its own, so \<^verbatim>\<open>_type_character\<close> prints the warning and returns false, even with an
  injector that always succeeds.
\<close>

theorem kelvin_sign_supported_but_not_typed:
  "is_char_supported py_unicode [0x212A] \<and>
   type_character py_unicode always_ok [0x212A] tr = (Inr False, tr @ [Print [0x212A]])"
  by (simp add: type_character_resolve resolve_def shift_vk_def is_char_supported_def
      table_defs unicode_defs domIff)

section \<open>Typing time\<close>

lemma sum_list_ones: "sum_list (map (\<lambda>x. 1::int) xs) = int (length xs)"
  by (induction xs) auto

text \<open>
  C8. For every string and every delay \<open>\<ge> 0\<close>, \<^verbatim>\<open>calculate_typing_time\<close> returns
  \<open>(n - 1) * delay\<close> where \<open>n\<close> is the number of supported characters when \<open>n > 1\<close>, and
  \<open>0\<close> otherwise; for "Hello", "A" and the empty string with delay 0.1 it returns 0.4, 0
  and 0.
\<close>

theorem calculate_typing_time_formula:
  assumes "0 \<le> delay"
  shows "calculate_typing_time U (PyStr t) delay =
           Inr (let n = length (filter (\<lambda>c. is_char_supported U [c]) t)
                in if n > 1 then (real n - 1) * delay else 0) \<and>
         calculate_typing_time py_unicode (PyStr (str ''Hello'')) 0.1 = Inr 0.4 \<and>
         calculate_typing_time py_unicode (PyStr (str ''A'')) 0.1 = Inr 0 \<and>
         calculate_typing_time py_unicode (PyStr (str '''')) 0.1 = Inr 0"
proof -
  have general: "calculate_typing_time U (PyStr t) d =
           Inr (let n = length (filter (\<lambda>c. is_char_supported U [c]) t)
                in if n > 1 then (real n - 1) * d else 0)" if "0 \<le> d" for U t d
    using that by (auto simp: calculate_typing_time_def sum_list_ones Let_def)
  have "calculate_typing_time py_unicode (PyStr (str ''Hello'')) 0.1 = Inr 0.4"
    by (subst general) (simp_all add: str_simps supported_H supported_e supported_l supported_o)
  moreover have "calculate_typing_time py_unicode (PyStr (str ''A'')) 0.1 = Inr 0"
    by (subst general) (simp_all add: str_simps supported_A)
  moreover have "calculate_typing_time py_unicode (PyStr (str '''')) 0.1 = Inr 0"
    by (subst general) (simp_all add: str_simps)
  ultimately show ?thesis using general[OF assms] by simp
qed

theorem calculate_typing_time_formula_witness:
  "(0::real) \<le> 1 / 2 \<and>
   calculate_typing_time py_unicode (PyStr [0x48, 0x4E16, 0x65, 0x6C]) (1 / 2) = Inr 1"
  using calculate_typing_time_formula[of "1 / 2" py_unicode "[0x48, 0x4E16, 0x65, 0x6C]"]
  by (simp add: supported_H supported_e supported_l is_char_supported_def table_defs unicode_defs domIff)

section \<open>Typing profiles\<close>

lemma DBL_OVERFLOW_positive: "0 < DBL_OVERFLOW"
proof -
  have "(2::real) ^ 970 < 2 ^ 1024" by (rule power_strict_increasing) simp_all
  then show ?thesis by (simp add: DBL_OVERFLOW_def)
qed

lemma create_typing_profile_in_range:
  assumes "0 < wpm" "real_of_int wpm * 5 / 60 < DBL_OVERFLOW"
  shows "create_typing_profile wpm =
           Inr [''wpm'' \<mapsto> real_of_int wpm,
                ''base_delay'' \<mapsto> 1 / (real_of_int wpm * 5 / 60),
                ''variance'' \<mapsto> 1 / (real_of_int wpm * 5 / 60) *
                   (if 80 \<le> wpm then 2 / 10 else if 40 \<le> wpm then 3 / 10 else 4 / 10),
                ''pause_chance'' \<mapsto> 5 / 100,
                ''pause_duration'' \<mapsto> 1 / (real_of_int wpm * 5 / 60) * 3]"
proof -
  have q: "real_of_int (wpm * 5) / real_of_int 60 = real_of_int wpm * 5 / 60" by simp
  have "0 < real_of_int wpm * 5 / 60" using assms(1) by simp
  then have "int_truediv (wpm * 5) 60 = Inr (real_of_int wpm * 5 / 60)"
    using assms(2) unfolding int_truediv_def q by simp
  moreover have "float_truediv 1 (real_of_int wpm * 5 / 60) = Inr (1 / (real_of_int wpm * 5 / 60))"
    using assms(1) by (simp add: float_truediv_def)
  ultimately show ?thesis using assms(1)
    by (simp add: create_typing_profile_def Let_def)
qed

lemma create_typing_profile_beyond_range:
  assumes "DBL_OVERFLOW \<le> real_of_int wpm * 5 / 60"
  shows "create_typing_profile wpm = Inl OverflowError"
proof -
  have q: "real_of_int (wpm * 5) / real_of_int 60 = real_of_int wpm * 5 / 60" by simp
  from assms DBL_OVERFLOW_positive have pos: "0 < real_of_int wpm * 5 / 60" by linarith
  then have w: "0 < wpm" by (simp add: zero_less_mult_iff zero_less_divide_iff)
  have "int_truediv (wpm * 5) 60 = Inl OverflowError"
    using assms pos unfolding int_truediv_def q by simp
  then show ?thesis using w by (simp add: create_typing_profile_def Let_def)
qed

text \<open>
  C6, as amended. \<^verbatim>\<open>create_typing_profile\<close> raises \<^verbatim>\<open>ValueError\<close> for every \<open>wpm \<le> 0\<close>;
  for every \<open>wpm > 0\<close> with \<open>wpm * 5 / 60\<close> below \<open>2 ^ 1024 - 2 ^ 970\<close>, where the
  quotient still rounds to a float, it returns a profile with
  \<open>base_delay = 1 / (wpm * 5 / 60)\<close>, \<open>variance = base_delay * r\<close> where \<open>r\<close> is 0.2 from 80
  words per minute on, 0.3 from 40 to 79 and 0.4 below 40, \<open>pause_chance = 0.05\<close> and
  \<open>pause_duration = base_delay * 3\<close>; from that bound on it raises \<^verbatim>\<open>OverflowError\<close>.
\<close>

theorem create_typing_profile_values:
  "(wpm \<le> 0 \<longrightarrow> create_typing_profile wpm = Inl (ValueError ''WPM must be positive'')) \<and>
   (0 < wpm \<and> real_of_int wpm * 5 / 60 < 2 ^ 1024 - 2 ^ 970 \<longrightarrow>
      (\<exists>p. create_typing_profile wpm = Inr p \<and>
           p ''base_delay'' = Some (1 / (real_of_int wpm * 5 / 60)) \<and>
           p ''variance'' =
             Some (1 / (real_of_int wpm * 5 / 60) *
                   (if 80 \<le> wpm then 0.2 else if 40 \<le> wpm then 0.3 else 0.4)) \<and>
           p ''pause_chance'' = Some 0.05 \<and>
           p ''pause_duration'' = Some (1 / (real_of_int wpm * 5 / 60) * 3))) \<and>
   (2 ^ 1024 - 2 ^ 970 \<le> real_of_int wpm * 5 / 60 \<longrightarrow>
      create_typing_profile wpm = Inl OverflowError)"
proof (intro conjI impI)
  assume "wpm \<le> 0"
  then show "create_typing_profile wpm = Inl (ValueError ''WPM must be positive'')"
    by (simp add: create_typing_profile_def)
next
  assume "0 < wpm \<and> real_of_int wpm * 5 / 60 < 2 ^ 1024 - 2 ^ 970"
  then have "0 < wpm" "real_of_int wpm * 5 / 60 < DBL_OVERFLOW"
    unfolding DBL_OVERFLOW_def by simp_all
  from create_typing_profile_in_range[OF this]
  show "\<exists>p. create_typing_profile wpm = Inr p \<and>
           p ''base_delay'' = Some (1 / (real_of_int wpm * 5 / 60)) \<and>
           p ''variance'' =
             Some (1 / (real_of_int wpm * 5 / 60) *
                   (if 80 \<le> wpm then 0.2 else if 40 \<le> wpm then 0.3 else 0.4)) \<and>
           p ''pause_chance'' = Some 0.05 \<and>
           p ''pause_duration'' = Some (1 / (real_of_int wpm * 5 / 60) * 3)"
    by simp
next
  assume "2 ^ 1024 - 2 ^ 970 \<le> real_of_int wpm * 5 / 60"
  then have "DBL_OVERFLOW \<le> real_of_int wpm * 5 / 60"
    unfolding DBL_OVERFLOW_def .
  then show "create_typing_profile wpm = Inl OverflowError"
    by (rule create_typing_profile_beyond_range)
qed

text \<open>
  C6 as stated fails: not every \<open>wpm > 0\<close> gets a profile. At \<open>wpm = 10 ^ 400\<close> the
  division \<^verbatim>\<open>chars_per_minute / 60\<close> raises \<^verbatim>\<open>OverflowError\<close>.
\<close>

theorem create_typing_profile_overflow:
  "(0::int) < 10 ^ 400 \<and> create_typing_profile (10 ^ 400) = Inl OverflowError"
proof -
  have "(2::real) ^ 1024 \<le> 10 ^ 400 * 5 / 60" by simp
  then have "DBL_OVERFLOW \<le> real_of_int (10 ^ 400) * 5 / 60"
    by (simp add: DBL_OVERFLOW_def)
  then show ?thesis
    using create_typing_profile_beyond_range[of "10 ^ 400"] by simp
qed

lemma create_typing_profile_60: "create_typing_profile 60 = Inr profile_60"
proof -
  have "(5::real) < 2 ^ 1024 - 2 ^ 970" by simp
  then have "real_of_int 60 * 5 / 60 < DBL_OVERFLOW" by (simp add: DBL_OVERFLOW_def)
  from create_typing_profile_in_range[OF _ this] show ?thesis
    by (simp add: profile_60_def)
qed

theorem create_typing_profile_values_witness:
  "create_typing_profile 0 = Inl (ValueError ''WPM must be positive'') \<and>
   (0::int) < 60 \<and> real_of_int 60 * 5 / 60 < 2 ^ 1024 - 2 ^ 970 \<and>
   create_typing_profile 60 = Inr profile_60 \<and>
   profile_60 ''base_delay'' = Some (1 / 5) \<and> profile_60 ''variance'' = Some (1 / 5 * 0.3) \<and>
   profile_60 ''pause_chance'' = Some 0.05 \<and> profile_60 ''pause_duration'' = Some (1 / 5 * 3) \<and>
   (2::real) ^ 1024 - 2 ^ 970 \<le> real_of_int (2 ^ 1030) * 5 / 60 \<and>
   create_typing_profile (2 ^ 1030) = Inl OverflowError"
proof -
  have small: "real_of_int 60 * 5 / 60 < (2::real) ^ 1024 - 2 ^ 970" by simp
  have large: "(2::real) ^ 1024 - 2 ^ 970 \<le> real_of_int (2 ^ 1030) * 5 / 60" by simp
  from create_typing_profile_values[of 0] create_typing_profile_values[of 60]
    create_typing_profile_values[of "2 ^ 1030"] small large
  show ?thesis
    by (simp add: create_typing_profile_60 profile_60_def)
qed

text \<open>Every profile that \<^verbatim>\<open>create_typing_profile\<close> returns has positive delays.\<close>

lemma create_typing_profile_positive:
  assumes "create_typing_profile wpm = Inr p"
  shows "\<exists>b v pd. p ''base_delay'' = Some b \<and> p ''variance'' = Some v \<and>
           p ''pause_chance'' = Some (5 / 100) \<and> p ''pause_duration'' = Some pd \<and>
           0 \<le> v \<and> v < b \<and> 0 < pd"
proof -
  from assms have w: "0 < wpm"
    by (auto simp: create_typing_profile_def split: if_splits)
  have "real_of_int wpm * 5 / 60 < DBL_OVERFLOW"
  proof (rule ccontr)
    assume "\<not> real_of_int wpm * 5 / 60 < DBL_OVERFLOW"
    then have "create_typing_profile wpm = Inl OverflowError"
      by (intro create_typing_profile_beyond_range) simp
    with assms show False by simp
  qed
  from create_typing_profile_in_range[OF w this] assms
  have p: "p = [''wpm'' \<mapsto> real_of_int wpm,
                ''base_delay'' \<mapsto> 1 / (real_of_int wpm * 5 / 60),
                ''variance'' \<mapsto> 1 / (real_of_int wpm * 5 / 60) *
                   (if 80 \<le> wpm then 2 / 10 else if 40 \<le> wpm then 3 / 10 else 4 / 10),
                ''pause_chance'' \<mapsto> 5 / 100,
                ''pause_duration'' \<mapsto> 1 / (real_of_int wpm * 5 / 60) * 3]"
    by simp
  let ?b = "1 / (real_of_int wpm * 5 / 60)"
  have b: "0 < ?b" using w by simp
  have scale: "0 \<le> x * r \<and> x * r < x" if "0 < x" "0 \<le> r" "r < 1" for x r :: real
    using that by (simp add: mult_less_cancel_left2)
  have "0 \<le> ?b * (2 / 10) \<and> ?b * (2 / 10) < ?b" "0 \<le> ?b * (3 / 10) \<and> ?b * (3 / 10) < ?b"
    "0 \<le> ?b * (4 / 10) \<and> ?b * (4 / 10) < ?b"
    by (rule scale[OF b]; simp)+
  then show ?thesis using b unfolding p
    by simp
qed

section \<open>Humanized delays\<close>


lemma uniform_onto:
  assumes "0 < v" "- v \<le> x" "x \<le> (v::real)"
  shows "\<exists>u. 0 \<le> u \<and> u \<le> 1 \<and> - v + (v - (- v)) * u = x"
proof (intro exI conjI)
  show "0 \<le> (x + v) / (2 * v)" using assms by simp
  show "(x + v) / (2 * v) \<le> 1" using assms by simp
  show "- v + (v - (- v)) * ((x + v) / (2 * v)) = x" using assms by (simp add: field_simps)
qed



section \<open>Delay schedules\<close>








end
